theory Spec2Isabelle
  imports Complex_Main
begin

section \<open>Python values\<close>

text \<open>
  A Python \<open>str\<close> is modelled as a \<open>string\<close> of ASCII characters (for ASCII text this is
  also its UTF-8 encoding, so \<open>s.encode("utf-8")\<close> is the identity). The character classes
  below are the ASCII part of \<open>str.isspace\<close>, \<open>str.isalnum\<close> and \<open>str.upper\<close>; Unicode
  case mapping outside ASCII is not covered by the model.

  A Python \<open>float\<close> is a finite number, an infinity or a NaN. Every finite binary64 value is
  a rational; negative zero is identified with zero, which comparisons with \<open>0\<close> cannot
  tell apart.
\<close>

datatype pyfloat = Finite rat | PosInf | NegInf | NaN

text \<open>\<open>f <= 0\<close> and \<open>f > 0\<close> on floats: every comparison with a NaN is false.\<close>

fun float_le_zero :: "pyfloat \<Rightarrow> bool" where
  "float_le_zero (Finite r) = (r \<le> 0)"
| "float_le_zero PosInf = False"
| "float_le_zero NegInf = True"
| "float_le_zero NaN = False"

fun float_gt_zero :: "pyfloat \<Rightarrow> bool" where
  "float_gt_zero (Finite r) = (0 < r)"
| "float_gt_zero PosInf = True"
| "float_gt_zero NegInf = False"
| "float_gt_zero NaN = False"

text \<open>The values stored in the dictionaries of the program.\<close>

datatype pyval = VNone | VBool bool | VInt int | VFloat pyfloat | VStr string

text \<open>A raw command-line value as the validators are annotated: \<open>str | float | None\<close>.\<close>

datatype raw = RNone | RStr string | RFloat pyfloat

text \<open>
  The parts of the Python runtime and standard library that the code calls and that are
  taken as parameters: \<open>float(s)\<close> on a string (\<open>None\<close> when it raises ValueError),
  \<open>str(f)\<close> of a float, float arithmetic with an int operand, and the HMAC-SHA256 digest
  of a message (as bytes) under a key.
\<close>

record py =
  float_of_str :: "string \<Rightarrow> pyfloat option"
  str_of_float :: "pyfloat \<Rightarrow> string"
  float_sub_int :: "pyfloat \<Rightarrow> int \<Rightarrow> pyfloat"
  int_add_float :: "int \<Rightarrow> pyfloat \<Rightarrow> pyfloat"
  hmac_sha256 :: "string \<Rightarrow> string \<Rightarrow> string"

datatype pyexc = TypeError | ValueError

text \<open>\<open>float(x)\<close>: TypeError on \<open>None\<close>, ValueError on a string that is not a number.\<close>

definition py_float :: "py \<Rightarrow> raw \<Rightarrow> pyexc + pyfloat" where
  "py_float p x =
     (case x of
        RNone \<Rightarrow> Inl TypeError
      | RFloat f \<Rightarrow> Inr f
      | RStr s \<Rightarrow> (case float_of_str p s of None \<Rightarrow> Inl ValueError | Some f \<Rightarrow> Inr f))"

text \<open>\<open>str(x)\<close>, as an f-string interpolates a value.\<close>

definition str_of_raw :: "py \<Rightarrow> raw \<Rightarrow> string" where
  "str_of_raw p x =
     (case x of RNone \<Rightarrow> ''None'' | RStr s \<Rightarrow> s | RFloat f \<Rightarrow> str_of_float p f)"

subsection \<open>String methods\<close>

definition isspace_char :: "char \<Rightarrow> bool" where
  "isspace_char c =
     (let n = (of_char c :: nat) in (9 \<le> n \<and> n \<le> 13) \<or> (28 \<le> n \<and> n \<le> 32))"

definition isalnum_char :: "char \<Rightarrow> bool" where
  "isalnum_char c =
     (let n = (of_char c :: nat) in
        (48 \<le> n \<and> n \<le> 57) \<or> (65 \<le> n \<and> n \<le> 90) \<or> (97 \<le> n \<and> n \<le> 122))"

definition upper_char :: "char \<Rightarrow> char" where
  "upper_char c =
     (let n = (of_char c :: nat) in if 97 \<le> n \<and> n \<le> 122 then char_of (n - 32) else c)"

text \<open>\<open>s.strip()\<close>: whitespace removed at both ends.\<close>

definition strip :: "string \<Rightarrow> string" where
  "strip s = rev (dropWhile isspace_char (rev (dropWhile isspace_char s)))"

definition upper :: "string \<Rightarrow> string" where
  "upper s = map upper_char s"

text \<open>\<open>s.isalnum()\<close>: false on the empty string.\<close>

definition isalnum :: "string \<Rightarrow> bool" where
  "isalnum s = (s \<noteq> [] \<and> list_all isalnum_char s)"

text \<open>\<open>sep.join(xs)\<close>.\<close>

fun join :: "string \<Rightarrow> string list \<Rightarrow> string" where
  "join sep [] = []"
| "join sep [x] = x"
| "join sep (x # y # ys) = x @ sep @ join sep (y # ys)"

text \<open>A value between single quotes, as in \<open>f"'{x}'"\<close>.\<close>

definition quoted :: "string \<Rightarrow> string" where
  "quoted s = CHR 0x27 # s @ [CHR 0x27]"

subsection \<open>Dictionaries\<close>

text \<open>
  A \<open>dict\<close> keeps its keys in insertion order: an association list with one entry per
  key. \<open>d[k] = v\<close> overwrites the entry of a key the dictionary has, where it stands, and
  appends the entry of a new key.
\<close>

type_synonym 'v pydict = "(string \<times> 'v) list"

fun dict_set :: "string \<Rightarrow> 'v \<Rightarrow> 'v pydict \<Rightarrow> 'v pydict" where
  "dict_set k v [] = [(k, v)]"
| "dict_set k v ((k', v') # d) =
     (if k' = k then (k, v) # d else (k', v') # dict_set k v d)"

definition keys :: "'v pydict \<Rightarrow> string list" where
  "keys d = map fst d"

text \<open>\<open>d.get(k, default)\<close>.\<close>

definition dict_get :: "'v pydict \<Rightarrow> string \<Rightarrow> 'v \<Rightarrow> 'v" where
  "dict_get d k dflt = (case map_of d k of None \<Rightarrow> dflt | Some v \<Rightarrow> v)"

section \<open>validators.py\<close>

datatype validation_error = ValidationError string

text \<open>Sequencing of two steps of which the first may raise.\<close>

definition and_then :: "'e + 'a \<Rightarrow> ('a \<Rightarrow> 'e + 'b) \<Rightarrow> 'e + 'b" where
  "and_then r f = (case r of Inl e \<Rightarrow> Inl e | Inr x \<Rightarrow> f x)"

definition validate_symbol :: "string \<Rightarrow> validation_error + string" where
  "validate_symbol symbol0 =
     (let symbol = upper (strip symbol0) in
      if symbol = [] then Inl (ValidationError ''Symbol cannot be empty.'')
      else if \<not> isalnum symbol then
        Inl (ValidationError (''Symbol '' @ quoted symbol @
               '' must contain only letters and numbers (e.g. BTCUSDT).''))
      else Inr symbol)"

text \<open>\<open>VALID_SIDES\<close> and \<open>VALID_ORDER_TYPES\<close>, listed as \<open>sorted\<close> returns them.\<close>

definition VALID_SIDES :: "string list" where
  "VALID_SIDES = [''BUY'', ''SELL'']"

definition VALID_ORDER_TYPES :: "string list" where
  "VALID_ORDER_TYPES = [''LIMIT'', ''MARKET'', ''TAKE_PROFIT'']"

definition validate_side :: "string \<Rightarrow> validation_error + string" where
  "validate_side side0 =
     (let side = upper (strip side0) in
      if side \<notin> set VALID_SIDES then
        Inl (ValidationError (''Invalid side '' @ quoted side @ ''. Must be one of: '' @
               join '', '' VALID_SIDES @ ''.''))
      else Inr side)"

definition validate_order_type :: "string \<Rightarrow> validation_error + string" where
  "validate_order_type order_type0 =
     (let order_type = upper (strip order_type0) in
      if order_type \<notin> set VALID_ORDER_TYPES then
        Inl (ValidationError (''Invalid order type '' @ quoted order_type @
               ''. Must be one of: '' @ join '', '' VALID_ORDER_TYPES @ ''.''))
      else Inr order_type)"

definition validate_quantity :: "py \<Rightarrow> raw \<Rightarrow> validation_error + pyfloat" where
  "validate_quantity p quantity =
     (case py_float p quantity of
        Inl _ \<Rightarrow>
          Inl (ValidationError (''Quantity '' @ quoted (str_of_raw p quantity) @
                 '' is not a valid number.''))
      | Inr qty \<Rightarrow>
          if float_le_zero qty then
            Inl (ValidationError (''Quantity must be greater than 0. Got: '' @ str_of_float p qty))
          else Inr qty)"

definition validate_price :: "py \<Rightarrow> raw \<Rightarrow> validation_error + pyfloat" where
  "validate_price p price =
     (if price = RNone then Inl (ValidationError ''Price is required for LIMIT orders.'')
      else case py_float p price of
        Inl _ \<Rightarrow>
          Inl (ValidationError (''Price '' @ quoted (str_of_raw p price) @
                 '' is not a valid number.''))
      | Inr pr \<Rightarrow>
          if float_le_zero pr then
            Inl (ValidationError (''Price must be greater than 0. Got: '' @ str_of_float p pr))
          else Inr pr)"

definition validate_stop_price :: "py \<Rightarrow> raw \<Rightarrow> validation_error + pyfloat" where
  "validate_stop_price p stop_price =
     (if stop_price = RNone then
        Inl (ValidationError ''Stop price (--stop-price) is required for STOP_MARKET orders.'')
      else case py_float p stop_price of
        Inl _ \<Rightarrow>
          Inl (ValidationError (''Stop price '' @ quoted (str_of_raw p stop_price) @
                 '' is not a valid number.''))
      | Inr sp \<Rightarrow>
          if float_le_zero sp then
            Inl (ValidationError (''Stop price must be greater than 0. Got: '' @ str_of_float p sp))
          else Inr sp)"

text \<open>
  \<open>validate_all\<close>: the order type first, then the dictionary literal (symbol, side), then
  the fields the order type asks for. Each step that raises ends the call.
\<close>

definition validate_all ::
  "py \<Rightarrow> string \<Rightarrow> string \<Rightarrow> string \<Rightarrow> raw \<Rightarrow> raw \<Rightarrow> raw \<Rightarrow> validation_error + pyval pydict" where
  "validate_all p symbol side order_type quantity price stop_price =
     and_then (validate_order_type order_type) (\<lambda>order_type_validated.
     and_then (validate_symbol symbol) (\<lambda>sym.
     and_then (validate_side side) (\<lambda>sd.
     and_then
       (if order_type_validated \<in> set [''MARKET'', ''LIMIT''] then
          if quantity = RNone then
            Inl (ValidationError (''--qty is required for '' @ order_type_validated @ '' orders.''))
          else
            and_then (validate_quantity p quantity) (\<lambda>q.
              Inr (dict_set ''quantity'' (VFloat q)
                     [(''symbol'', VStr sym), (''side'', VStr sd),
                      (''order_type'', VStr order_type_validated)]))
        else Inr [(''symbol'', VStr sym), (''side'', VStr sd),
                  (''order_type'', VStr order_type_validated)]) (\<lambda>validated1.
     and_then
       (if order_type_validated = ''LIMIT'' then
          and_then (validate_price p price) (\<lambda>pr.
            Inr (dict_set ''price'' (VFloat pr) validated1))
        else Inr validated1) (\<lambda>validated2.
     if order_type_validated = ''TAKE_PROFIT'' then
       and_then (validate_stop_price p stop_price) (\<lambda>sp.
         Inr (dict_set ''stop_price'' (VFloat sp) validated2))
     else Inr validated2)))))"

subsection \<open>The order of validation, as a list of checks\<close>

text \<open>
  The reading of "the first field that fails" that \<open>validate_all\<close> is compared with: one
  check per field, in the order order type, symbol, side, quantity, price, stop price, each
  evaluated on its own; a field the order type does not ask for passes. The quantity check
  of a MARKET or LIMIT order fails on an absent quantity before \<open>validate_quantity\<close> sees
  it.
\<close>

definition raised :: "'e + 'a \<Rightarrow> 'e option" where
  "raised r = (case r of Inl e \<Rightarrow> Some e | Inr _ \<Rightarrow> None)"

fun first_failure :: "'e option list \<Rightarrow> 'e option" where
  "first_failure [] = None"
| "first_failure (None # cs) = first_failure cs"
| "first_failure (Some e # cs) = Some e"

definition field_checks ::
  "py \<Rightarrow> string \<Rightarrow> string \<Rightarrow> string \<Rightarrow> raw \<Rightarrow> raw \<Rightarrow> raw \<Rightarrow> validation_error option list" where
  "field_checks p symbol side order_type quantity price stop_price =
     (let t = upper (strip order_type) in
      [raised (validate_order_type order_type),
       raised (validate_symbol symbol),
       raised (validate_side side),
       (if t = ''MARKET'' \<or> t = ''LIMIT'' then
          if quantity = RNone then
            Some (ValidationError (''--qty is required for '' @ t @ '' orders.''))
          else raised (validate_quantity p quantity)
        else None),
       (if t = ''LIMIT'' then raised (validate_price p price) else None),
       (if t = ''TAKE_PROFIT'' then raised (validate_stop_price p stop_price) else None)])"

text \<open>The aggregated dictionary of a call in which every check passes.\<close>

definition validated_fields ::
  "py \<Rightarrow> string \<Rightarrow> string \<Rightarrow> string \<Rightarrow> raw \<Rightarrow> raw \<Rightarrow> raw \<Rightarrow> pyval pydict" where
  "validated_fields p symbol side order_type quantity price stop_price =
     (let t = upper (strip order_type) in
      [(''symbol'', VStr (upper (strip symbol))),
       (''side'', VStr (upper (strip side))),
       (''order_type'', VStr t)] @
      (case py_float p quantity of
         Inr q \<Rightarrow> if t = ''MARKET'' \<or> t = ''LIMIT'' then [(''quantity'', VFloat q)] else []
       | Inl _ \<Rightarrow> []) @
      (case py_float p price of
         Inr pr \<Rightarrow> if t = ''LIMIT'' then [(''price'', VFloat pr)] else []
       | Inl _ \<Rightarrow> []) @
      (case py_float p stop_price of
         Inr sp \<Rightarrow> if t = ''TAKE_PROFIT'' then [(''stop_price'', VFloat sp)] else []
       | Inl _ \<Rightarrow> []))"

section \<open>client.py\<close>

subsection \<open>urllib.parse.urlencode and hexdigest\<close>

text \<open>
  \<open>urlencode(params)\<close> of a dictionary: every key and value goes through \<open>quote_plus\<close>, a
  value that is not a string through \<open>str\<close> first, and the pairs \<open>k=v\<close> are joined by
  \<open>&\<close> in the order of the dictionary. \<open>quote_plus\<close> keeps letters, digits and \<open>_.-~\<close>, turns
  a space into \<open>+\<close> and any other byte into \<open>%XX\<close>. \<open>hexdigest\<close> writes every byte of a
  digest as two lowercase hexadecimal digits.
\<close>

fun str_of_nat :: "nat \<Rightarrow> string" where
  "str_of_nat n =
     (if n < 10 then [char_of (48 + n)] else str_of_nat (n div 10) @ [char_of (48 + n mod 10)])"

declare str_of_nat.simps [simp del]

definition str_of_int :: "int \<Rightarrow> string" where
  "str_of_int i = (if i < 0 then CHR ''-'' # str_of_nat (nat (- i)) else str_of_nat (nat i))"

definition py_str :: "py \<Rightarrow> pyval \<Rightarrow> string" where
  "py_str p v =
     (case v of
        VNone \<Rightarrow> ''None''
      | VBool b \<Rightarrow> (if b then ''True'' else ''False'')
      | VInt i \<Rightarrow> str_of_int i
      | VFloat f \<Rightarrow> str_of_float p f
      | VStr s \<Rightarrow> s)"

definition hex_upper_digit :: "nat \<Rightarrow> char" where
  "hex_upper_digit n = (if n < 10 then char_of (48 + n) else char_of (55 + n))"

definition hex_lower_digit :: "nat \<Rightarrow> char" where
  "hex_lower_digit n = (if n < 10 then char_of (48 + n) else char_of (87 + n))"

definition quote_plus_char :: "char \<Rightarrow> string" where
  "quote_plus_char c =
     (if isalnum_char c \<or> c \<in> set ''_.-~'' then [c]
      else if c = CHR '' '' then ''+''
      else [CHR ''%'', hex_upper_digit (of_char c div 16), hex_upper_digit (of_char c mod 16)])"

definition quote_plus :: "string \<Rightarrow> string" where
  "quote_plus s = concat (map quote_plus_char s)"

definition urlencode :: "py \<Rightarrow> pyval pydict \<Rightarrow> string" where
  "urlencode p params =
     join ''&'' (map (\<lambda>(k, v). quote_plus k @ ''='' @ quote_plus (py_str p v)) params)"

definition hex_byte :: "char \<Rightarrow> string" where
  "hex_byte c = [hex_lower_digit (of_char c div 16), hex_lower_digit (of_char c mod 16)]"

definition hexdigest :: "string \<Rightarrow> string" where
  "hexdigest bs = concat (map hex_byte bs)"


subsection \<open>The client\<close>

text \<open>
  What \<open>response.json()\<close> returns. A response carries its status code, the flag \<open>ok\<close> that
  \<open>requests\<close> derives from it, and its body as JSON, \<open>None\<close> when the body is not JSON and
  \<open>response.json()\<close> raises. An HTTP call either raises or returns a response; it is a
  parameter of the functions that make it. Clock readings (\<open>int(time.time() * 1000)\<close>) are
  parameters as well. Of the logging calls only those of the constructor are modelled; the
  others do not affect any result.
\<close>

datatype json =
  JNull | JBool bool | JInt int | JFloat pyfloat | JStr string
  | JList "json list" | JDict "(string \<times> json) list"

datatype client_error =
  EnvironmentError string
  | ConnectionError
  | Timeout
  | OtherRequestException
  | JSONDecodeError
  | AttributeError
  | BinanceAPIError int json json

record response =
  status_code :: int
  ok :: bool
  json_body :: "json option"

datatype http = Raised client_error | Reply response

datatype pynum = NInt int | NFloat pyfloat

datatype log_level = DEBUG | WARNING

type_synonym log = "(log_level \<times> string) list"

record client =
  api_key :: string
  api_secret :: string
  time_offset_ms :: pynum

definition TESTNET_BASE_URL :: string where
  "TESTNET_BASE_URL = ''https://testnet.binancefuture.com''"

definition ORDER_ENDPOINT :: string where
  "ORDER_ENDPOINT = ''/fapi/v1/order''"

definition TIME_ENDPOINT :: string where
  "TIME_ENDPOINT = ''/fapi/v1/time''"

text \<open>
  \<open>get_server_time\<close>: \<open>.get\<close> exists on a JSON object only. \<open>_sync_time\<close> catches every
  exception of its body, and \<open>__init__\<close> checks the two credentials before it synchronises.
\<close>

definition get_server_time :: "(string \<Rightarrow> http) \<Rightarrow> client_error + json" where
  "get_server_time http_get =
     (case http_get (TESTNET_BASE_URL @ TIME_ENDPOINT) of
        Raised e \<Rightarrow> Inl e
      | Reply r \<Rightarrow>
          (case json_body r of
             None \<Rightarrow> Inl JSONDecodeError
           | Some (JDict d) \<Rightarrow> Inr (dict_get d ''serverTime'' (JInt 0))
           | Some _ \<Rightarrow> Inl AttributeError))"

text \<open>\<open>server_time - local_mid\<close>: \<open>None\<close> when the operand types make it raise TypeError.\<close>

definition sub_int :: "py \<Rightarrow> json \<Rightarrow> int \<Rightarrow> pynum option" where
  "sub_int p x m =
     (case x of
        JInt a \<Rightarrow> Some (NInt (a - m))
      | JBool b \<Rightarrow> Some (NInt ((if b then 1 else 0) - m))
      | JFloat f \<Rightarrow> Some (NFloat (float_sub_int p f m))
      | _ \<Rightarrow> None)"

definition sync_warning :: string where
  "sync_warning =
     ''Could not sync server time: %s '' @ [CHR 0xE2, CHR 0x80, CHR 0x94] @ '' using local time''"

definition sync_time ::
  "py \<Rightarrow> client \<Rightarrow> int \<Rightarrow> (string \<Rightarrow> http) \<Rightarrow> int \<Rightarrow> client \<times> log" where
  "sync_time p c local_before http_get local_after =
     (case get_server_time http_get of
        Inl e \<Rightarrow> (c\<lparr>time_offset_ms := NInt 0\<rparr>, [(WARNING, sync_warning)])
      | Inr server_time \<Rightarrow>
          (let local_mid = (local_before + local_after) div 2 in
           case sub_int p server_time local_mid of
             None \<Rightarrow> (c\<lparr>time_offset_ms := NInt 0\<rparr>, [(WARNING, sync_warning)])
           | Some off \<Rightarrow> (c\<lparr>time_offset_ms := off\<rparr>, [(DEBUG, ''Time offset synced: %d ms'')])))"



text \<open>
  \<open>_timestamp\<close> with the clock reading \<open>now\<close>, and \<open>_sign\<close>: the secret and the query
  string are encoded to bytes, which the model's strings already are.
\<close>

definition timestamp :: "py \<Rightarrow> client \<Rightarrow> int \<Rightarrow> pyval" where
  "timestamp p c now =
     (case time_offset_ms c of
        NInt off \<Rightarrow> VInt (now + off)
      | NFloat f \<Rightarrow> VFloat (int_add_float p now f))"

definition sign :: "py \<Rightarrow> client \<Rightarrow> pyval pydict \<Rightarrow> string" where
  "sign p c params = hexdigest (hmac_sha256 p (api_secret c) (urlencode p params))"

text \<open>
  \<open>_post\<close>, from the two assignments to \<open>params\<close> on. The dictionary is the caller's
  object, so the function returns it, as it is after the call, next to the result;
  \<open>read_response\<close> is the part of \<open>_post\<close> after \<open>session.post\<close>.
\<close>

definition read_response :: "http \<Rightarrow> client_error + json" where
  "read_response r0 =
     (case r0 of
        Raised e \<Rightarrow> Inl e
      | Reply r \<Rightarrow>
          (case json_body r of
             None \<Rightarrow> Inl JSONDecodeError
           | Some data \<Rightarrow>
               if \<not> ok r then
                 (case data of
                    JDict d \<Rightarrow>
                      Inl (BinanceAPIError (status_code r)
                             (dict_get d ''code'' (JInt (- 1)))
                             (dict_get d ''msg'' (JStr ''Unknown error'')))
                  | _ \<Rightarrow> Inl AttributeError)
               else Inr data))"

definition post ::
  "py \<Rightarrow> client \<Rightarrow> int \<Rightarrow> (string \<Rightarrow> pyval pydict \<Rightarrow> http) \<Rightarrow> string \<Rightarrow> pyval pydict \<Rightarrow>
     pyval pydict \<times> (client_error + json)" where
  "post p c now http_post endpoint params =
     (let params1 = dict_set ''timestamp'' (timestamp p c now) params;
          params2 = dict_set ''signature'' (VStr (sign p c params1)) params1;
          url = TESTNET_BASE_URL @ endpoint
      in (params2, read_response (http_post url params2)))"

definition post_order ::
  "py \<Rightarrow> client \<Rightarrow> int \<Rightarrow> (string \<Rightarrow> pyval pydict \<Rightarrow> http) \<Rightarrow> pyval pydict \<Rightarrow>
     pyval pydict \<times> (client_error + json)" where
  "post_order p c now http_post params = post p c now http_post ORDER_ENDPOINT params"

section \<open>orders.py\<close>

text \<open>
  Each order function builds its parameter dictionary and passes it to \<open>post_order\<close>. The
  handler of \<open>BinanceAPIError\<close> logs and raises the error again, and the summaries are
  printed only, so the outcome of an order function is the outcome of \<open>post_order\<close>.
\<close>

definition place_market_order ::
  "py \<Rightarrow> client \<Rightarrow> int \<Rightarrow> (string \<Rightarrow> pyval pydict \<Rightarrow> http) \<Rightarrow> string \<Rightarrow> string \<Rightarrow> pyval \<Rightarrow>
     pyval pydict \<times> (client_error + json)" where
  "place_market_order p c now http_post symbol side quantity =
     post_order p c now http_post
       [(''symbol'', VStr symbol), (''side'', VStr side), (''type'', VStr ''MARKET''),
        (''quantity'', quantity)]"

definition place_limit_order ::
  "py \<Rightarrow> client \<Rightarrow> int \<Rightarrow> (string \<Rightarrow> pyval pydict \<Rightarrow> http) \<Rightarrow> string \<Rightarrow> string \<Rightarrow> pyval \<Rightarrow>
     pyfloat \<Rightarrow> string \<Rightarrow> pyval pydict \<times> (client_error + json)" where
  "place_limit_order p c now http_post symbol side quantity price time_in_force =
     post_order p c now http_post
       [(''symbol'', VStr symbol), (''side'', VStr side), (''type'', VStr ''LIMIT''),
        (''quantity'', quantity), (''price'', VFloat price),
        (''timeInForce'', VStr time_in_force)]"

definition place_take_profit_market_order ::
  "py \<Rightarrow> client \<Rightarrow> int \<Rightarrow> (string \<Rightarrow> pyval pydict \<Rightarrow> http) \<Rightarrow> string \<Rightarrow> string \<Rightarrow> pyfloat \<Rightarrow>
     pyval pydict \<times> (client_error + json)" where
  "place_take_profit_market_order p c now http_post symbol side stop_price =
     post_order p c now http_post
       [(''symbol'', VStr symbol), (''side'', VStr side), (''type'', VStr ''TAKE_PROFIT_MARKET''),
        (''stopPrice'', VFloat stop_price), (''closePosition'', VStr ''true'')]"

section \<open>Properties of the validators\<close>





subsection \<open>What a successful validator returns\<close>

lemma validate_order_type_Inr:
  "validate_order_type s = Inr t \<Longrightarrow>
     t = upper (strip s) \<and> (t = ''LIMIT'' \<or> t = ''MARKET'' \<or> t = ''TAKE_PROFIT'')"
  by (auto simp: validate_order_type_def VALID_ORDER_TYPES_def Let_def split: if_splits)

lemma validate_symbol_Inr: "validate_symbol s = Inr t \<Longrightarrow> t = upper (strip s)"
  by (auto simp: validate_symbol_def Let_def split: if_splits)

lemma validate_side_Inr: "validate_side s = Inr t \<Longrightarrow> t = upper (strip s)"
  by (auto simp: validate_side_def Let_def split: if_splits)

lemma validate_quantity_Inr: "validate_quantity p x = Inr q \<Longrightarrow> py_float p x = Inr q"
  by (auto simp: validate_quantity_def split: sum.splits if_splits)

lemma validate_price_Inr: "validate_price p x = Inr q \<Longrightarrow> py_float p x = Inr q"
  by (auto simp: validate_price_def split: sum.splits if_splits)

lemma validate_stop_price_Inr: "validate_stop_price p x = Inr q \<Longrightarrow> py_float p x = Inr q"
  by (auto simp: validate_stop_price_def split: sum.splits if_splits)

text \<open>
  C5. For every input, \<open>validate_all\<close> validates the fields in a fixed order: order type
  first, then symbol, then side, then the fields of the order type with quantity before
  price and price before stop price. It returns the ValidationError of the first field
  that fails, or the aggregated dictionary when every relevant field passes.
\<close>

theorem validate_all_first_failure:
  "validate_all p symbol side order_type quantity price stop_price =
     (case first_failure (field_checks p symbol side order_type quantity price stop_price) of
        Some e \<Rightarrow> Inl e
      | None \<Rightarrow> Inr (validated_fields p symbol side order_type quantity price stop_price))"
proof (cases "validate_order_type order_type")
  case (Inl e)
  then show ?thesis
    by (simp add: validate_all_def and_then_def field_checks_def raised_def Let_def)
next
  case ot: (Inr t)
  note t = validate_order_type_Inr [OF ot]
  show ?thesis
  proof (cases "validate_symbol symbol")
    case (Inl e)
    then show ?thesis using ot
      by (simp add: validate_all_def and_then_def field_checks_def raised_def Let_def)
  next
    case sy: (Inr sym)
    note sym = validate_symbol_Inr [OF sy]
    show ?thesis
    proof (cases "validate_side side")
      case (Inl e)
      then show ?thesis using ot sy
        by (simp add: validate_all_def and_then_def field_checks_def raised_def Let_def)
    next
      case si: (Inr sd)
      note sd = validate_side_Inr [OF si]
      from t have "t = ''LIMIT'' \<or> t = ''MARKET'' \<or> t = ''TAKE_PROFIT''" by blast
      then show ?thesis
      proof (elim disjE)
        assume L: "t = ''LIMIT''"
        show ?thesis using ot sy si t sym sd L
          by (auto simp: validate_all_def and_then_def field_checks_def raised_def Let_def
                validated_fields_def
              dest!: validate_quantity_Inr validate_price_Inr
              split: sum.splits)
      next
        assume M: "t = ''MARKET''"
        show ?thesis using ot sy si t sym sd M
          by (auto simp: validate_all_def and_then_def field_checks_def raised_def Let_def
                validated_fields_def
              dest!: validate_quantity_Inr
              split: sum.splits)
      next
        assume T: "t = ''TAKE_PROFIT''"
        show ?thesis using ot sy si t sym sd T
          by (auto simp: validate_all_def and_then_def field_checks_def raised_def Let_def
                validated_fields_def
              dest!: validate_stop_price_Inr
              split: sum.splits)
      qed
    qed
  qed
qed

subsection \<open>Quantity, price and stop price\<close>

lemma float_gt_zero_iff: "float_gt_zero f = (\<not> float_le_zero f \<and> f \<noteq> NaN)"
  by (cases f) auto

text \<open>
  What holds of \<open>validate_price\<close> and \<open>validate_stop_price\<close>: they succeed exactly on an
  input that \<open>float\<close> accepts and whose value is not \<open><= 0\<close>, and the three failure
  messages differ from one another.
\<close>

lemma validate_price_succeeds_iff:
  "(validate_price p x = Inr f) = (py_float p x = Inr f \<and> \<not> float_le_zero f)"
  by (auto simp: validate_price_def py_float_def split: sum.splits raw.splits option.splits)

lemma validate_stop_price_succeeds_iff:
  "(validate_stop_price p x = Inr f) = (py_float p x = Inr f \<and> \<not> float_le_zero f)"
  by (auto simp: validate_stop_price_def py_float_def split: sum.splits raw.splits option.splits)

lemma price_messages_distinct:
  "''Price is required for LIMIT orders.'' \<noteq>
     ''Price '' @ quoted a @ '' is not a valid number.'' \<and>
   ''Price is required for LIMIT orders.'' \<noteq> ''Price must be greater than 0. Got: '' @ b \<and>
   ''Price '' @ quoted a @ '' is not a valid number.'' \<noteq>
     ''Price must be greater than 0. Got: '' @ b"
  by (simp add: quoted_def)

lemma stop_price_messages_distinct:
  "''Stop price (--stop-price) is required for STOP_MARKET orders.'' \<noteq>
     ''Stop price '' @ quoted a @ '' is not a valid number.'' \<and>
   ''Stop price (--stop-price) is required for STOP_MARKET orders.'' \<noteq>
     ''Stop price must be greater than 0. Got: '' @ b \<and>
   ''Stop price '' @ quoted a @ '' is not a valid number.'' \<noteq>
     ''Stop price must be greater than 0. Got: '' @ b"
  by (simp add: quoted_def)

text \<open>
  C7. \<open>validate_price\<close> and \<open>validate_stop_price\<close> are to succeed only on a number strictly
  greater than zero. On a NaN, which \<open>float\<close> returns for the input \<open>nan\<close> and which is a
  value of the annotated input type, the test \<open>p <= 0\<close> is false: both functions return
  the NaN, which is not greater than zero.
\<close>

theorem validate_price_nan:
  "validate_price p (RFloat NaN) = Inr NaN \<and>
   validate_stop_price p (RFloat NaN) = Inr NaN \<and>
   \<not> float_gt_zero NaN"
  by (simp add: validate_price_def validate_stop_price_def py_float_def)

text \<open>
  C10. \<open>validate_quantity\<close> has no message of its own for an absent quantity:
  \<open>validate_quantity(None)\<close> fails with the message "not a valid number", and it never
  fails with the message "--qty is required". \<open>validate_all\<close> fails with that message
  exactly when the order type is MARKET or LIMIT, symbol and side are valid and the
  quantity is absent, a case in which \<open>validate_quantity\<close> is not reached.
\<close>

theorem validate_quantity_none:
  "validate_quantity p RNone =
     Inl (ValidationError (''Quantity '' @ quoted ''None'' @ '' is not a valid number.'')) \<and>
   validate_quantity p x \<noteq> Inl (ValidationError (''--qty is required for '' @ t @ '' orders.'')) \<and>
   (validate_all p symbol side order_type quantity price stop_price =
      Inl (ValidationError (''--qty is required for '' @ t @ '' orders.'')) \<longleftrightarrow>
    validate_order_type order_type = Inr t \<and> (t = ''MARKET'' \<or> t = ''LIMIT'') \<and>
    (\<exists>sym. validate_symbol symbol = Inr sym) \<and> (\<exists>sd. validate_side side = Inr sd) \<and>
    quantity = RNone)"
proof (intro conjI)
  show "validate_quantity p RNone =
     Inl (ValidationError (''Quantity '' @ quoted ''None'' @ '' is not a valid number.''))"
    by (simp add: validate_quantity_def py_float_def str_of_raw_def)
  show "validate_quantity p x \<noteq>
     Inl (ValidationError (''--qty is required for '' @ t @ '' orders.''))"
    by (simp add: validate_quantity_def split: sum.splits)
  show "(validate_all p symbol side order_type quantity price stop_price =
      Inl (ValidationError (''--qty is required for '' @ t @ '' orders.''))) \<longleftrightarrow>
    (validate_order_type order_type = Inr t \<and> (t = ''MARKET'' \<or> t = ''LIMIT'') \<and>
    (\<exists>sym. validate_symbol symbol = Inr sym) \<and> (\<exists>sd. validate_side side = Inr sd) \<and>
    quantity = RNone)"
    by (auto simp: validate_all_def and_then_def validate_order_type_def VALID_ORDER_TYPES_def
          validate_symbol_def validate_side_def VALID_SIDES_def validate_quantity_def
          validate_price_def validate_stop_price_def Let_def
        split: sum.splits if_splits)
qed

section \<open>Properties of the client\<close>

subsection \<open>Signatures\<close>












subsection \<open>Dictionary updates\<close>

lemma dict_set_fresh: "k \<notin> set (keys d) \<Longrightarrow> dict_set k v d = d @ [(k, v)]"
  by (induction d) (auto simp: keys_def)

lemma keys_dict_set:
  "keys (dict_set k v d) = (if k \<in> set (keys d) then keys d else keys d @ [k])"
  by (induction d) (force simp: keys_def)+

lemma set_keys_dict_set: "set (keys (dict_set k v d)) = insert k (set (keys d))"
  by (auto simp: keys_dict_set)

lemma map_of_dict_set: "map_of (dict_set k v d) = (map_of d)(k \<mapsto> v)"
  by (induction d) (auto simp: fun_eq_iff)

lemma filter_dict_set:
  "\<not> P (k, v) \<Longrightarrow> (\<And>w. \<not> P (k, w)) \<Longrightarrow> filter P (dict_set k v d) = filter P d"
  by (induction d) auto

subsection \<open>post\<close>

text \<open>
  C1, as amended. For every call to \<open>post_order\<close> whose parameters hold neither a
  \<open>timestamp\<close> nor a \<open>signature\<close> key (as its docstring asks), the form body is the
  caller's parameters followed by \<open>timestamp\<close> and then \<open>signature\<close>, and the signature
  is the hexadecimal HMAC-SHA256 of the URL-encoding of the parameters with the timestamp
  and without the signature.
\<close>

theorem post_order_appends:
  assumes "''timestamp'' \<notin> set (keys params)" and "''signature'' \<notin> set (keys params)"
  shows "post_order p c now http_post params =
     (params @
        [(''timestamp'', timestamp p c now),
         (''signature'',
            VStr (hexdigest (hmac_sha256 p (api_secret c)
                    (urlencode p (params @ [(''timestamp'', timestamp p c now)])))))],
      read_response
        (http_post (TESTNET_BASE_URL @ ORDER_ENDPOINT)
           (params @
              [(''timestamp'', timestamp p c now),
               (''signature'',
                  VStr (hexdigest (hmac_sha256 p (api_secret c)
                          (urlencode p (params @ [(''timestamp'', timestamp p c now)])))))])))"
proof -
  have 1: "dict_set ''timestamp'' (timestamp p c now) params =
             params @ [(''timestamp'', timestamp p c now)]"
    using assms(1) by (rule dict_set_fresh)
  have "''signature'' \<notin> set (keys (params @ [(''timestamp'', timestamp p c now)]))"
    using assms(2) by (simp add: keys_def)
  then have 2: "dict_set ''signature'' v (params @ [(''timestamp'', timestamp p c now)]) =
             (params @ [(''timestamp'', timestamp p c now)]) @ [(''signature'', v)]" for v
    by (rule dict_set_fresh)
  show ?thesis
    by (simp add: post_order_def post_def Let_def 1 2 sign_def)
qed

theorem post_order_appends_witness:
  "\<forall>p c now http_post.
     keys (fst (post_order p c now http_post
             [(''symbol'', VStr ''BTCUSDT''), (''side'', VStr ''BUY''),
              (''type'', VStr ''MARKET''), (''quantity'', VFloat (Finite (1 / 1000)))])) =
       [''symbol'', ''side'', ''type'', ''quantity'', ''timestamp'', ''signature'']"
proof (intro allI)
  fix p c now http_post
  let ?ps = "[(''symbol'', VStr ''BTCUSDT''), (''side'', VStr ''BUY''),
              (''type'', VStr ''MARKET''), (''quantity'', VFloat (Finite (1 / 1000)))]"
  have a: "''timestamp'' \<notin> set (keys ?ps)" by (simp add: keys_def)
  have b: "''signature'' \<notin> set (keys ?ps)" by (simp add: keys_def)
  show "keys (fst (post_order p c now http_post ?ps)) =
       [''symbol'', ''side'', ''type'', ''quantity'', ''timestamp'', ''signature'']"
    using post_order_appends [OF a b, of p c now http_post] by (simp add: keys_def)
qed

text \<open>
  C1 as stated fails for a dictionary that already has the key \<open>timestamp\<close>: the entry
  is overwritten where it stands, here in front of \<open>symbol\<close>.
\<close>

theorem post_order_timestamp_counterexample:
  "\<forall>p c now http_post.
     keys (fst (post_order p c now http_post
             [(''timestamp'', VInt 0), (''symbol'', VStr ''BTCUSDT'')])) =
       [''timestamp'', ''symbol'', ''signature'']"
  by (simp add: post_order_def post_def Let_def keys_def)

text \<open>
  C9, as amended. After any call to \<open>post_order\<close>, whatever the HTTP call does, the
  caller's dictionary holds the keys \<open>timestamp\<close> and \<open>signature\<close>, and every other key
  keeps its value and its place. When the caller supplied neither of the two keys, all
  entries of the caller are unchanged and the two are added after them.
\<close>

theorem post_order_mutates_params:
  "fst (post_order p c now http_post params) = fst (post_order p c now http_post' params) \<and>
   ''timestamp'' \<in> set (keys (fst (post_order p c now http_post params))) \<and>
   ''signature'' \<in> set (keys (fst (post_order p c now http_post params))) \<and>
   (\<forall>k. k \<noteq> ''timestamp'' \<and> k \<noteq> ''signature'' \<longrightarrow>
        map_of (fst (post_order p c now http_post params)) k = map_of params k) \<and>
   filter (\<lambda>e. fst e \<noteq> ''timestamp'' \<and> fst e \<noteq> ''signature'')
       (fst (post_order p c now http_post params)) =
     filter (\<lambda>e. fst e \<noteq> ''timestamp'' \<and> fst e \<noteq> ''signature'') params \<and>
   (''timestamp'' \<notin> set (keys params) \<and> ''signature'' \<notin> set (keys params) \<longrightarrow>
      take (length params) (fst (post_order p c now http_post params)) = params \<and>
      length (fst (post_order p c now http_post params)) = length params + 2)"
proof (intro conjI allI impI)
  show "fst (post_order p c now http_post params) = fst (post_order p c now http_post' params)"
    by (simp add: post_order_def post_def Let_def)
  show "''timestamp'' \<in> set (keys (fst (post_order p c now http_post params)))"
    by (simp add: post_order_def post_def Let_def set_keys_dict_set)
  show "''signature'' \<in> set (keys (fst (post_order p c now http_post params)))"
    by (simp add: post_order_def post_def Let_def set_keys_dict_set)
  show "map_of (fst (post_order p c now http_post params)) k = map_of params k"
    if "k \<noteq> ''timestamp'' \<and> k \<noteq> ''signature''" for k
    using that by (simp add: post_order_def post_def Let_def map_of_dict_set)
  show "filter (\<lambda>e. fst e \<noteq> ''timestamp'' \<and> fst e \<noteq> ''signature'')
       (fst (post_order p c now http_post params)) =
     filter (\<lambda>e. fst e \<noteq> ''timestamp'' \<and> fst e \<noteq> ''signature'') params"
    by (simp add: post_order_def post_def Let_def filter_dict_set)
  assume h: "''timestamp'' \<notin> set (keys params) \<and> ''signature'' \<notin> set (keys params)"
  then have e: "fst (post_order p c now http_post params) =
      params @ [(''timestamp'', timestamp p c now),
        (''signature'', VStr (sign p c (params @ [(''timestamp'', timestamp p c now)])))]"
    by (simp add: post_order_def post_def Let_def dict_set_fresh keys_def)
  show "take (length params) (fst (post_order p c now http_post params)) = params"
    by (simp add: e)
  show "length (fst (post_order p c now http_post params)) = length params + 2"
    by (simp add: e)
qed

theorem post_order_mutates_params_witness:
  "\<forall>p c now http_post.
     map_of (fst (post_order p c now http_post [(''symbol'', VStr ''BTCUSDT'')])) ''symbol'' =
       Some (VStr ''BTCUSDT'') \<and>
     take 1 (fst (post_order p c now http_post [(''symbol'', VStr ''BTCUSDT'')])) =
       [(''symbol'', VStr ''BTCUSDT'')] \<and>
     length (fst (post_order p c now http_post [(''symbol'', VStr ''BTCUSDT'')])) = 3"
proof (intro allI)
  fix p c now http_post
  show "map_of (fst (post_order p c now http_post [(''symbol'', VStr ''BTCUSDT'')])) ''symbol'' =
       Some (VStr ''BTCUSDT'') \<and>
     take 1 (fst (post_order p c now http_post [(''symbol'', VStr ''BTCUSDT'')])) =
       [(''symbol'', VStr ''BTCUSDT'')] \<and>
     length (fst (post_order p c now http_post [(''symbol'', VStr ''BTCUSDT'')])) = 3"
    using post_order_mutates_params
      [of p c now http_post "[(''symbol'', VStr ''BTCUSDT'')]" http_post]
    by (simp add: keys_def)
qed

text \<open>
  C9 as stated fails for a caller who supplied \<open>timestamp\<close>: the value is replaced.
\<close>

theorem post_order_overwrites_counterexample:
  "\<forall>p k s http_post.
     map_of [(''timestamp'', VInt 0), (''symbol'', VStr ''BTCUSDT'')] ''timestamp'' =
       Some (VInt 0) \<and>
     map_of (fst (post_order p \<lparr>api_key = k, api_secret = s, time_offset_ms = NInt 0\<rparr> 5
                    http_post [(''timestamp'', VInt 0), (''symbol'', VStr ''BTCUSDT'')]))
       ''timestamp'' = Some (VInt 5)"
  by (simp add: post_order_def post_def Let_def timestamp_def)

subsection \<open>Responses\<close>

lemma read_response_error:
  "\<not> ok r \<Longrightarrow> json_body r = Some (JDict d) \<Longrightarrow>
     read_response (Reply r) =
       Inl (BinanceAPIError (status_code r) (dict_get d ''code'' (JInt (- 1)))
              (dict_get d ''msg'' (JStr ''Unknown error'')))"
  by (simp add: read_response_def)

lemma read_response_insufficient_balance:
  "read_response
     (Reply \<lparr>status_code = 400, ok = False,
             json_body = Some (JDict [(''code'', JInt (- 2010)),
                                      (''msg'', JStr ''Insufficient balance'')])\<rparr>) =
   Inl (BinanceAPIError 400 (JInt (- 2010)) (JStr ''Insufficient balance''))"
  by (simp add: read_response_def dict_get_def)

text \<open>
  C3. A response that is not 2xx is to end in a \<open>BinanceAPIError\<close>, with code \<open>-1\<close> and a
  generic message when its body cannot be parsed. \<open>_post\<close> calls \<open>response.json()\<close> before
  it looks at \<open>response.ok\<close>: a 502 response whose body is not JSON ends in the
  \<open>JSONDecodeError\<close> of that call.
\<close>

theorem post_order_non_json_error_body:
  "snd (post_order p c now
          (\<lambda>url body. Reply \<lparr>status_code = 502, ok = False, json_body = None\<rparr>) params) =
     Inl JSONDecodeError \<and>
   JSONDecodeError \<noteq> BinanceAPIError 502 (JInt (- 1)) (JStr ''Unknown error'')"
  by (simp add: post_order_def post_def Let_def read_response_def)

subsection \<open>Construction\<close>

lemma sync_time_keeps_credentials:
  "api_key (fst (sync_time p c t0 http_get t1)) = api_key c \<and>
   api_secret (fst (sync_time p c t0 http_get t1)) = api_secret c"
  by (simp add: sync_time_def Let_def split: sum.splits option.splits)






subsection \<open>Take-profit orders\<close>

lemma validate_symbol_btcusdt: "validate_symbol ''BTCUSDT'' = Inr ''BTCUSDT''"
  by code_simp

lemma validate_side_buy: "validate_side ''BUY'' = Inr ''BUY''"
  by code_simp

lemma validate_order_type_limit: "validate_order_type ''LIMIT'' = Inr ''LIMIT''"
  by code_simp

lemma validate_order_type_market: "validate_order_type ''MARKET'' = Inr ''MARKET''"
  by code_simp

lemma validate_order_type_take_profit: "validate_order_type ''take_profit'' = Inr ''TAKE_PROFIT''"
  by code_simp

text \<open>
  C8 as stated fails: a LIMIT order without price and without quantity fails with the
  message of the quantity, which is checked first.
\<close>

theorem validate_all_limit_counterexample:
  "\<forall>p. validate_all p ''BTCUSDT'' ''BUY'' ''LIMIT'' RNone RNone RNone =
          Inl (ValidationError ''--qty is required for LIMIT orders.'') \<and>
        validate_all p ''BTCUSDT'' ''BUY'' ''LIMIT'' RNone RNone RNone \<noteq>
          Inl (ValidationError ''Price is required for LIMIT orders.'')"
  by (simp add: validate_all_def and_then_def validate_symbol_btcusdt validate_side_buy
        validate_order_type_limit)

text \<open>
  C8, as amended. For the order type TAKE_PROFIT the result of \<open>validate_all\<close> does not
  depend on the quantity, is never the error "--qty is required", and has no \<open>quantity\<close>
  key. A MARKET order without quantity fails with "--qty is required" when symbol and side
  are valid; a LIMIT order without price fails with "Price is required" when symbol, side
  and quantity are valid. \<open>place_take_profit_market_order\<close> passes exactly \<open>symbol\<close>,
  \<open>side\<close>, \<open>type\<close>, \<open>stopPrice\<close> and \<open>closePosition = "true"\<close> to \<open>post_order\<close>, and the
  form body holds these followed by \<open>timestamp\<close> and \<open>signature\<close>: no \<open>quantity\<close>.
\<close>

theorem take_profit_without_quantity:
  "(validate_order_type order_type = Inr ''TAKE_PROFIT'' \<longrightarrow>
      validate_all p symbol side order_type quantity price stop_price =
        validate_all p symbol side order_type RNone price stop_price \<and>
      validate_all p symbol side order_type quantity price stop_price \<noteq>
        Inl (ValidationError (''--qty is required for '' @ t @ '' orders.'')) \<and>
      (\<forall>v. validate_all p symbol side order_type quantity price stop_price = Inr v \<longrightarrow>
           ''quantity'' \<notin> set (keys v))) \<and>
   (validate_order_type order_type = Inr ''MARKET'' \<and> validate_symbol symbol = Inr symb \<and>
    validate_side side = Inr sd \<longrightarrow>
      validate_all p symbol side order_type RNone price stop_price =
        Inl (ValidationError ''--qty is required for MARKET orders.'')) \<and>
   (validate_order_type order_type = Inr ''LIMIT'' \<and> validate_symbol symbol = Inr symb \<and>
    validate_side side = Inr sd \<and> validate_quantity p quantity = Inr q \<longrightarrow>
      validate_all p symbol side order_type quantity RNone stop_price =
        Inl (ValidationError ''Price is required for LIMIT orders.'')) \<and>
   place_take_profit_market_order p c now http_post symb sd sp =
     post_order p c now http_post
       [(''symbol'', VStr symb), (''side'', VStr sd), (''type'', VStr ''TAKE_PROFIT_MARKET''),
        (''stopPrice'', VFloat sp), (''closePosition'', VStr ''true'')] \<and>
   keys (fst (place_take_profit_market_order p c now http_post symb sd sp)) =
     [''symbol'', ''side'', ''type'', ''stopPrice'', ''closePosition'', ''timestamp'',
      ''signature'']"
proof (intro conjI impI allI)
  assume tp: "validate_order_type order_type = Inr ''TAKE_PROFIT''"
  show "validate_all p symbol side order_type quantity price stop_price =
        validate_all p symbol side order_type RNone price stop_price"
    using tp by (simp add: validate_all_def and_then_def split: sum.splits)
  show "validate_all p symbol side order_type quantity price stop_price \<noteq>
        Inl (ValidationError (''--qty is required for '' @ t @ '' orders.''))"
    using tp
    by (auto simp: validate_all_def and_then_def validate_symbol_def validate_side_def
          VALID_SIDES_def validate_stop_price_def Let_def
        split: sum.splits if_splits)
  fix v
  assume "validate_all p symbol side order_type quantity price stop_price = Inr v"
  then show "''quantity'' \<notin> set (keys v)"
    using tp by (auto simp: validate_all_def and_then_def keys_def split: sum.splits)
next
  assume "validate_order_type order_type = Inr ''MARKET'' \<and> validate_symbol symbol = Inr symb \<and>
    validate_side side = Inr sd"
  then show "validate_all p symbol side order_type RNone price stop_price =
        Inl (ValidationError ''--qty is required for MARKET orders.'')"
    by (simp add: validate_all_def and_then_def)
next
  assume h: "validate_order_type order_type = Inr ''LIMIT'' \<and> validate_symbol symbol = Inr symb \<and>
    validate_side side = Inr sd \<and> validate_quantity p quantity = Inr q"
  then have "quantity \<noteq> RNone"
    by (auto simp: validate_quantity_def py_float_def)
  with h show "validate_all p symbol side order_type quantity RNone stop_price =
        Inl (ValidationError ''Price is required for LIMIT orders.'')"
    by (simp add: validate_all_def and_then_def validate_price_def)
next
  show "place_take_profit_market_order p c now http_post symb sd sp =
     post_order p c now http_post
       [(''symbol'', VStr symb), (''side'', VStr sd), (''type'', VStr ''TAKE_PROFIT_MARKET''),
        (''stopPrice'', VFloat sp), (''closePosition'', VStr ''true'')]"
    by (simp add: place_take_profit_market_order_def)
  show "keys (fst (place_take_profit_market_order p c now http_post symb sd sp)) =
     [''symbol'', ''side'', ''type'', ''stopPrice'', ''closePosition'', ''timestamp'',
      ''signature'']"
    by (simp add: place_take_profit_market_order_def post_order_def post_def Let_def keys_def)
qed

lemma validate_quantity_example:
  "validate_quantity p (RFloat (Finite (1 / 1000))) = Inr (Finite (1 / 1000))"
  by (simp add: validate_quantity_def py_float_def)

theorem take_profit_without_quantity_witness:
  "\<forall>p.
     validate_all p ''BTCUSDT'' ''BUY'' ''take_profit'' (RFloat (Finite (1 / 1000))) RNone
         (RFloat (Finite 90000)) =
       validate_all p ''BTCUSDT'' ''BUY'' ''take_profit'' RNone RNone (RFloat (Finite 90000)) \<and>
     validate_all p ''BTCUSDT'' ''BUY'' ''take_profit'' RNone RNone (RFloat (Finite 90000)) =
       Inr [(''symbol'', VStr ''BTCUSDT''), (''side'', VStr ''BUY''),
            (''order_type'', VStr ''TAKE_PROFIT''), (''stop_price'', VFloat (Finite 90000))] \<and>
     ''quantity'' \<notin> set (keys [(''symbol'', VStr ''BTCUSDT''), (''side'', VStr ''BUY''),
            (''order_type'', VStr ''TAKE_PROFIT''), (''stop_price'', VFloat (Finite 90000))]) \<and>
     validate_all p ''BTCUSDT'' ''BUY'' ''MARKET'' RNone RNone RNone =
       Inl (ValidationError ''--qty is required for MARKET orders.'') \<and>
     validate_all p ''BTCUSDT'' ''BUY'' ''LIMIT'' (RFloat (Finite (1 / 1000))) RNone RNone =
       Inl (ValidationError ''Price is required for LIMIT orders.'')"
proof (intro allI conjI)
  fix p
  let ?q = "RFloat (Finite (1 / 1000))" and ?sp = "RFloat (Finite 90000)"
  let ?v = "[(''symbol'', VStr ''BTCUSDT''), (''side'', VStr ''BUY''),
            (''order_type'', VStr ''TAKE_PROFIT''), (''stop_price'', VFloat (Finite 90000))]"
  have ok: "validate_all p ''BTCUSDT'' ''BUY'' ''take_profit'' RNone RNone ?sp = Inr ?v"
    by (simp add: validate_all_def and_then_def validate_symbol_btcusdt validate_side_buy
          validate_order_type_take_profit validate_stop_price_def py_float_def)
  note tp = take_profit_without_quantity
    [of "''take_profit''" p "''BTCUSDT''" "''BUY''" ?q RNone ?sp]
  show "validate_all p ''BTCUSDT'' ''BUY'' ''take_profit'' ?q RNone ?sp =
       validate_all p ''BTCUSDT'' ''BUY'' ''take_profit'' RNone RNone ?sp"
    using tp validate_order_type_take_profit by simp
  show "validate_all p ''BTCUSDT'' ''BUY'' ''take_profit'' RNone RNone ?sp = Inr ?v"
    by (rule ok)
  show "''quantity'' \<notin> set (keys ?v)"
    using take_profit_without_quantity
      [of "''take_profit''" p "''BTCUSDT''" "''BUY''" RNone RNone ?sp]
      validate_order_type_take_profit ok
    by simp
  show "validate_all p ''BTCUSDT'' ''BUY'' ''MARKET'' RNone RNone RNone =
       Inl (ValidationError ''--qty is required for MARKET orders.'')"
    using take_profit_without_quantity
      [of "''MARKET''" p "''BTCUSDT''" "''BUY''" _ RNone RNone _ "''BTCUSDT''" "''BUY''"]
      validate_order_type_market validate_symbol_btcusdt validate_side_buy
    by simp
  show "validate_all p ''BTCUSDT'' ''BUY'' ''LIMIT'' ?q RNone RNone =
       Inl (ValidationError ''Price is required for LIMIT orders.'')"
    using take_profit_without_quantity
      [of "''LIMIT''" p "''BTCUSDT''" "''BUY''" ?q _ RNone _ "''BTCUSDT''" "''BUY''"
          "Finite (1 / 1000)"]
      validate_order_type_limit validate_symbol_btcusdt validate_side_buy
      validate_quantity_example [of p]
    by simp
qed

end
